theory Spec2Isabelle
  imports Complex_Main
begin

section \<open>Exceptions\<close>

text \<open>
  The Python exceptions that the two modules raise or catch. \<open>ValueError\<close> (with its
  subclasses) is the only one that \<open>parse_scan_for_wildfire\<close> catches;
  \<open>NotImplementedError\<close> is raised by the two stubs of \<open>GoesScan\<close>; every other
  exception (a failed download, a missing file, an attribute error) is \<open>OtherError\<close>
  with its message.
\<close>

datatype exn = ValueError | NotImplementedError | OtherError string

section \<open>Floating-point values with the IEEE special values\<close>

text \<open>
  A numpy float is modelled as a real number or one of the three special values.
  Finite arithmetic is exact (rounding, overflow and the sign of zero are not modelled);
  the special values follow IEEE 754 as numpy applies it with its default error state,
  where a division by zero or an invalid operation warns and returns a value.
\<close>

datatype npfloat = Fin real | PInf | NInf | NaN

fun fneg :: "npfloat \<Rightarrow> npfloat" where
  "fneg (Fin a) = Fin (- a)"
| "fneg PInf = NInf"
| "fneg NInf = PInf"
| "fneg NaN = NaN"

fun fadd :: "npfloat \<Rightarrow> npfloat \<Rightarrow> npfloat" where
  "fadd NaN _ = NaN"
| "fadd _ NaN = NaN"
| "fadd (Fin a) (Fin b) = Fin (a + b)"
| "fadd (Fin a) PInf = PInf"
| "fadd (Fin a) NInf = NInf"
| "fadd PInf (Fin b) = PInf"
| "fadd NInf (Fin b) = NInf"
| "fadd PInf PInf = PInf"
| "fadd NInf NInf = NInf"
| "fadd PInf NInf = NaN"
| "fadd NInf PInf = NaN"

definition fsub :: "npfloat \<Rightarrow> npfloat \<Rightarrow> npfloat" where
  "fsub a b = fadd a (fneg b)"

text \<open>The sign of an infinity multiplied or divided by a non-zero finite factor.\<close>

definition signed_inf :: "bool \<Rightarrow> npfloat" where
  "signed_inf positive = (if positive then PInf else NInf)"

fun fmul :: "npfloat \<Rightarrow> npfloat \<Rightarrow> npfloat" where
  "fmul NaN _ = NaN"
| "fmul _ NaN = NaN"
| "fmul (Fin a) (Fin b) = Fin (a * b)"
| "fmul (Fin a) PInf = (if a = 0 then NaN else signed_inf (0 < a))"
| "fmul (Fin a) NInf = (if a = 0 then NaN else signed_inf (a < 0))"
| "fmul PInf (Fin b) = (if b = 0 then NaN else signed_inf (0 < b))"
| "fmul NInf (Fin b) = (if b = 0 then NaN else signed_inf (b < 0))"
| "fmul PInf PInf = PInf"
| "fmul NInf NInf = PInf"
| "fmul PInf NInf = NInf"
| "fmul NInf PInf = NInf"

fun fdiv :: "npfloat \<Rightarrow> npfloat \<Rightarrow> npfloat" where
  "fdiv NaN _ = NaN"
| "fdiv _ NaN = NaN"
| "fdiv (Fin a) (Fin b) =
     (if b \<noteq> 0 then Fin (a / b) else if a = 0 then NaN else signed_inf (0 < a))"
| "fdiv (Fin a) PInf = Fin 0"
| "fdiv (Fin a) NInf = Fin 0"
| "fdiv PInf (Fin b) = signed_inf (0 \<le> b)"
| "fdiv NInf (Fin b) = signed_inf (b < 0)"
| "fdiv PInf PInf = NaN"
| "fdiv PInf NInf = NaN"
| "fdiv NInf PInf = NaN"
| "fdiv NInf NInf = NaN"

text \<open>\<open>np.log\<close>: minus infinity at zero, NaN below zero.\<close>

fun flog :: "npfloat \<Rightarrow> npfloat" where
  "flog (Fin a) = (if 0 < a then Fin (ln a) else if a = 0 then NInf else NaN)"
| "flog PInf = PInf"
| "flog NInf = NaN"
| "flog NaN = NaN"

text \<open>The comparison \<open>>\<close>: false whenever an operand is NaN.\<close>

fun fgt :: "npfloat \<Rightarrow> npfloat \<Rightarrow> bool" where
  "fgt NaN _ = False"
| "fgt _ NaN = False"
| "fgt (Fin a) (Fin b) = (b < a)"
| "fgt PInf PInf = False"
| "fgt PInf _ = True"
| "fgt _ PInf = False"
| "fgt NInf _ = False"
| "fgt (Fin a) NInf = True"

section \<open>Arrays\<close>

text \<open>
  A two-dimensional array is a list of rows. The calibration constants of a band file
  are zero-dimensional, so every binary operation of the conversion formulas is between
  a grid and a scalar, which numpy broadcasts over the grid.
\<close>

type_synonym grid = "npfloat list list"
type_synonym bgrid = "bool list list"

definition scalar_div_grid :: "npfloat \<Rightarrow> grid \<Rightarrow> grid" where
  "scalar_div_grid c g = map (map (\<lambda>x. fdiv c x)) g"

definition grid_div_scalar :: "grid \<Rightarrow> npfloat \<Rightarrow> grid" where
  "grid_div_scalar g c = map (map (\<lambda>x. fdiv x c)) g"

definition grid_add_scalar :: "grid \<Rightarrow> npfloat \<Rightarrow> grid" where
  "grid_add_scalar g c = map (map (\<lambda>x. fadd x c)) g"

definition grid_sub_scalar :: "grid \<Rightarrow> npfloat \<Rightarrow> grid" where
  "grid_sub_scalar g c = map (map (\<lambda>x. fsub x c)) g"



definition np_log :: "grid \<Rightarrow> grid" where
  "np_log g = map (map flog) g"

section \<open>The single-band scan of \<open>wildfire/goes/scan.py\<close>\<close>

text \<open>
  The \<open>xr.Dataset\<close> of one band file: the radiance \<open>Rad\<close>, the calibration constants,
  and the two variables that \<open>_process\<close> assigns, absent (\<open>None\<close>) until then.
\<close>

record dataset =
  Rad :: grid
  kappa0 :: npfloat
  planck_fk1 :: npfloat
  planck_fk2 :: npfloat
  planck_bc1 :: npfloat
  planck_bc2 :: npfloat
  reflectance_factor :: "grid option"
  brightness_temperature :: "grid option"


text \<open>
  \<open>dataset.assign(brightness_temperature=lambda ds:
     (ds.planck_fk2 / (np.log((ds.planck_fk1 / ds.Rad) + 1)) - ds.planck_bc1) / ds.planck_bc2)\<close>
\<close>

definition calculate_brightness_temperature :: "dataset \<Rightarrow> dataset" where
  "calculate_brightness_temperature ds =
     ds\<lparr>brightness_temperature := Some
       (grid_div_scalar
          (grid_sub_scalar
             (scalar_div_grid (planck_fk2 ds)
                (np_log (grid_add_scalar (scalar_div_grid (planck_fk1 ds) (Rad ds)) (Fin 1))))
             (planck_bc1 ds))
          (planck_bc2 ds))\<rparr>"


text \<open>A timestamp, as \<open>datetime.datetime\<close> holds it.\<close>

record datetime =
  year :: nat
  month :: nat
  day :: nat
  hour :: nat
  minute :: nat
  second :: nat
  microsecond :: nat

text \<open>
  \<open>GoesScan\<close>: the fields that \<open>__init__\<close> sets. The four values parsed from the file
  name and the dataset read from disk or downloaded come from modules that are not
  part of the two files, so \<open>GoesScan_init\<close> takes them as arguments; the dataset it
  stores is the processed one, as \<open>_get\<close> returns \<open>self._process(dataset=scan)\<close>.
\<close>

record GoesScan =
  region :: string
  channel :: int
  satellite :: string
  started_at_utc :: datetime
  filepath :: string
  local_directory :: string
  scan_dataset :: dataset


text \<open>\<open>_to_2km_resolution\<close> and \<open>_filter_bad_pixels\<close>: the body is one \<open>raise\<close>.\<close>

definition to_2km_resolution :: "GoesScan \<Rightarrow> exn + unit" where
  "to_2km_resolution self = Inl NotImplementedError"

definition filter_bad_pixels :: "GoesScan \<Rightarrow> exn + unit" where
  "filter_bad_pixels self = Inl NotImplementedError"


definition brightness_temperature_formula ::
  "npfloat \<Rightarrow> npfloat \<Rightarrow> npfloat \<Rightarrow> npfloat \<Rightarrow> npfloat \<Rightarrow> npfloat" where
  "brightness_temperature_formula fk1 fk2 bc1 bc2 raw_radiance =
     fdiv (fsub (fdiv fk2 (flog (fadd (fdiv fk1 raw_radiance) (Fin 1)))) bc1) bc2"

text \<open>
  \<open>plot\<close> chooses the variable it shows by \<open>self.channel in range(1, 6)\<close>; the model
  returns the title prefix and the variable handed to \<open>imshow\<close>.
\<close>

definition plot :: "GoesScan \<Rightarrow> string \<times> grid option" where
  "plot self =
     (if channel self \<in> {1..<6}
      then (''Reflectance Factor Band '', reflectance_factor (scan_dataset self))
      else (''Brightness Temperature Band '', brightness_temperature (scan_dataset self)))"

section \<open>Formatting timestamps\<close>

definition digit_char :: "nat \<Rightarrow> char" where
  "digit_char d = ''0123456789'' ! (d mod 10)"

fun dec :: "nat \<Rightarrow> string" where
  "dec n = (if n < 10 then [digit_char n] else dec (n div 10) @ [digit_char (n mod 10)])"

declare dec.simps [simp del]

definition zero_pad :: "nat \<Rightarrow> nat \<Rightarrow> string" where
  "zero_pad w n = replicate (w - length (dec n)) (CHR ''0'') @ dec n"

text \<open>
  \<open>DATETIME_FORMAT = "%Y-%m-%dT%H:%M:%S"\<close>: the year with four digits and the other
  fields with two, each padded with zeros on the left.
\<close>

definition strftime_DATETIME_FORMAT :: "datetime \<Rightarrow> string" where
  "strftime_DATETIME_FORMAT t =
     zero_pad 4 (year t) @ ''-'' @ zero_pad 2 (month t) @ ''-'' @ zero_pad 2 (day t) @ ''T'' @
     zero_pad 2 (hour t) @ '':'' @ zero_pad 2 (minute t) @ '':'' @ zero_pad 2 (second t)"

text \<open>\<open>strftime("%Y-%m-%dT%H:%M:%S%f")\<close>: the microseconds follow the seconds directly.\<close>

definition strftime_scan_time :: "datetime \<Rightarrow> string" where
  "strftime_scan_time t = strftime_DATETIME_FORMAT t @ zero_pad 6 (microsecond t)"

section \<open>The collaborators of \<open>goes_level_1_wildfires.py\<close>\<close>

text \<open>
  The module \<open>wildfire.data.goes_level_1\<close> (the sixteen-band scan, its reader and the
  grouping of file paths) is not among the source files. Its scan is an abstract type
  \<open>'s\<close>, and what the code calls on it is a record of functions: \<open>read_netcdfs\<close> may
  raise, the others are the attribute reads and the rescaling the code performs on a
  scan that was read successfully.
\<close>

record 's goes_level_1 =
  group_filepaths_into_scans :: "string list \<Rightarrow> string list list"
  read_netcdfs :: "string list \<Rightarrow> exn + 's"
  rescale_to_2km :: "'s \<Rightarrow> 's"
  band_brightness_temperature :: "'s \<Rightarrow> string \<Rightarrow> grid"
  band_reflectance_factor :: "'s \<Rightarrow> string \<Rightarrow> grid"
  scan_time_utc :: "'s \<Rightarrow> datetime"
  scan_region :: "'s \<Rightarrow> string"
  scan_satellite :: "'s \<Rightarrow> string"

text \<open>
  The four pixel tests of \<open>threshold_model\<close> (module \<open>model.py\<close>, not among the source
  files) are taken as they are called: functions from grids to boolean grids.
\<close>

record threshold_model =
  is_hot_pixel :: "grid \<Rightarrow> grid \<Rightarrow> bgrid"
  is_night_pixel :: "grid \<Rightarrow> grid \<Rightarrow> bgrid"
  is_water_pixel :: "grid \<Rightarrow> bgrid"
  is_cloud_pixel :: "grid \<Rightarrow> grid \<Rightarrow> grid \<Rightarrow> bgrid"

record ModelFeatures =
  is_hot :: bgrid
  is_night :: bgrid
  is_water :: bgrid
  is_cloud :: bgrid

text \<open>
  Element-wise \<open>&\<close> and \<open>~\<close> on boolean arrays. The masks of one scan all have the
  shape of the rescaled grid; operands of different shapes are outside the model.
\<close>

definition grid_and :: "bgrid \<Rightarrow> bgrid \<Rightarrow> bgrid" where
  "grid_and a b = map2 (\<lambda>r1 r2. map2 (\<lambda>x y. x \<and> y) r1 r2) a b"

definition grid_not :: "bgrid \<Rightarrow> bgrid" where
  "grid_not a = map (map Not) a"

text \<open>
  Modelled from the spec: \<open>threshold_model.predict\<close> is not among the source files. The
  specification gives the final decision as
  \<open>is_hot AND NOT is_cloud AND NOT is_water\<close> for each pixel; \<open>is_night\<close> is passed and
  has no part in it.
\<close>

definition predict_pixel :: "bool \<Rightarrow> bool \<Rightarrow> bool \<Rightarrow> bool \<Rightarrow> bool" where
  "predict_pixel hot cloud night water = (hot \<and> \<not> cloud \<and> \<not> water)"

text \<open>
  Modelled from the spec: \<open>threshold_model.predict\<close> on the four masks of a scan, the
  rule above applied to arrays of one shape with numpy's element-wise \<open>&\<close> and \<open>~\<close>:
  \<open>is_hot & ~is_cloud & ~is_water\<close>.
\<close>

definition predict :: "bgrid \<Rightarrow> bgrid \<Rightarrow> bgrid \<Rightarrow> bgrid \<Rightarrow> bgrid" where
  "predict hot cloud night water = grid_and (grid_and hot (grid_not cloud)) (grid_not water)"

text \<open>
  Modelled from the spec: \<open>multiprocessing.map_function\<close> is not among the source files.
  The specification describes it as running the function over the list of inputs and
  returning the results in the order of the inputs; an exception raised by one call is
  raised by the whole call, as Python's pools do.
\<close>

fun map_function :: "('a \<Rightarrow> exn + 'b) \<Rightarrow> 'a list \<Rightarrow> exn + 'b list" where
  "map_function f [] = Inr []"
| "map_function f (x # xs) =
     (case f x of
        Inl e \<Rightarrow> Inl e
      | Inr y \<Rightarrow> (case map_function f xs of Inl e \<Rightarrow> Inl e | Inr ys \<Rightarrow> Inr (y # ys)))"

section \<open>\<open>goes_level_1_wildfires.py\<close>\<close>

definition get_model_features :: "'s goes_level_1 \<Rightarrow> threshold_model \<Rightarrow> 's \<Rightarrow> ModelFeatures" where
  "get_model_features gl tm goes_scan =
     (let rescaled_scan = rescale_to_2km gl goes_scan in
      \<lparr>is_hot = is_hot_pixel tm
                 (band_brightness_temperature gl rescaled_scan ''band_7'')
                 (band_brightness_temperature gl rescaled_scan ''band_14''),
       is_night = is_night_pixel tm
                 (band_reflectance_factor gl rescaled_scan ''band_2'')
                 (band_reflectance_factor gl rescaled_scan ''band_3''),
       is_water = is_water_pixel tm
                 (band_reflectance_factor gl rescaled_scan ''band_6''),
       is_cloud = is_cloud_pixel tm
                 (band_reflectance_factor gl rescaled_scan ''band_2'')
                 (band_reflectance_factor gl rescaled_scan ''band_3'')
                 (band_brightness_temperature gl rescaled_scan ''band_15'')\<rparr>)"

definition predict_wildfires :: "'s goes_level_1 \<Rightarrow> threshold_model \<Rightarrow> 's \<Rightarrow> bgrid" where
  "predict_wildfires gl tm goes_scan =
     (let model_features = get_model_features gl tm goes_scan in
      predict (is_hot model_features) (is_cloud model_features)
              (is_night model_features) (is_water model_features))"

text \<open>
  \<open>ndarray.mean()\<close> of a boolean array: the number of true entries over the number of
  entries, and NaN for an array without entries.
\<close>

definition mean :: "bgrid \<Rightarrow> npfloat" where
  "mean g =
     (let xs = concat g in
      if xs = [] then NaN else Fin (real (length (filter id xs)) / real (length xs)))"

text \<open>
  A wildfire is a Python \<open>dict\<close> from strings to strings: the list of its items in
  insertion order.
\<close>

type_synonym wildfire = "(string \<times> string) list"

definition parse_scan_for_wildfire ::
  "'s goes_level_1 \<Rightarrow> threshold_model \<Rightarrow> string list \<Rightarrow> exn + wildfire option" where
  "parse_scan_for_wildfire gl tm filepaths =
     (case read_netcdfs gl filepaths of
        Inl ValueError \<Rightarrow> Inr None
      | Inl e \<Rightarrow> Inl e
      | Inr goes_scan \<Rightarrow>
          if fgt (mean (predict_wildfires gl tm goes_scan)) (Fin 0)
          then Inr (Some [(''scan_time_utc'', strftime_scan_time (scan_time_utc gl goes_scan)),
                          (''region'', scan_region gl goes_scan),
                          (''satellite'', scan_satellite gl goes_scan)])
          else Inr None)"

text \<open>
  \<open>list(filter(None, wildfires))\<close> keeps the truthy results: \<open>None\<close> and an empty
  \<open>dict\<close> are dropped.
\<close>

fun filter_None :: "wildfire option list \<Rightarrow> wildfire list" where
  "filter_None [] = []"
| "filter_None (None # rs) = filter_None rs"
| "filter_None (Some w # rs) = (if w = [] then filter_None rs else w # filter_None rs)"


text \<open>
  \<open>WILDFIRE_FILENAME.format(...)\<close> and \<open>os.path.join\<close> of a directory with a file name
  that does not start with a slash.
\<close>

definition WILDFIRE_FILENAME ::
  "string \<Rightarrow> string \<Rightarrow> string \<Rightarrow> string \<Rightarrow> string \<Rightarrow> string" where
  "WILDFIRE_FILENAME sat reg start_s end_s created =
     ''wildfires_'' @ sat @ ''_'' @ reg @ ''_s'' @ start_s @ ''_e'' @ end_s @
     ''_c'' @ created @ ''.json''"

definition os_path_join :: "string \<Rightarrow> string \<Rightarrow> string" where
  "os_path_join a b =
     (if b \<noteq> [] \<and> hd b = CHR ''/'' then b
      else if a = [] \<or> last a = CHR ''/'' then a @ b
      else a @ ''/'' @ b)"

text \<open>
  The JSON text that \<open>json.dump\<close> writes, as a value: \<open>dict(enumerate(wildfires))\<close> has
  the integer keys \<open>0, 1, \<dots>\<close>, which JSON writes as strings of decimal digits.
\<close>

datatype json = JString string | JObject "(string \<times> json) list"

definition json_of_wildfire :: "wildfire \<Rightarrow> json" where
  "json_of_wildfire w = JObject (map (\<lambda>(k, v). (k, JString v)) w)"

definition enumerate_dict :: "'a list \<Rightarrow> (nat \<times> 'a) list" where
  "enumerate_dict xs = zip [0..<length xs] xs"

definition json_dump :: "(nat \<times> wildfire) list \<Rightarrow> json" where
  "json_dump d = JObject (map (\<lambda>(i, w). (dec i, json_of_wildfire w)) d)"

text \<open>
  \<open>label_wildfires\<close> returns the wildfires; its effect is the list of files it wrote,
  each with its path and content. The caller supplies the time that
  \<open>datetime.datetime.utcnow()\<close> returns.
\<close>

definition label_wildfires ::
  "'s goes_level_1 \<Rightarrow> threshold_model \<Rightarrow> string list list \<Rightarrow> string \<Rightarrow> string \<Rightarrow> string \<Rightarrow>
   datetime \<Rightarrow> datetime \<Rightarrow> datetime \<Rightarrow> exn + (wildfire list \<times> (string \<times> json) list)" where
  "label_wildfires gl tm scan_filepaths persist_directory sat reg start end utcnow =
     (case map_function (parse_scan_for_wildfire gl tm) scan_filepaths of
        Inl e \<Rightarrow> Inl e
      | Inr results \<Rightarrow>
          (let wildfires = filter_None results in
           if length wildfires > 0
           then
             (let wildfires_filepath =
                    os_path_join persist_directory
                      (WILDFIRE_FILENAME sat reg
                         (strftime_DATETIME_FORMAT start)
                         (strftime_DATETIME_FORMAT end)
                         (strftime_DATETIME_FORMAT utcnow))
              in Inr (wildfires, [(wildfires_filepath, json_dump (enumerate_dict wildfires))]))
           else Inr (wildfires, [])))"

section \<open>A small instance\<close>

text \<open>
  Concrete inputs on which the definitions are evaluated: a band file with a zero, two
  negative, a missing and a very large radiance, and a batch whose scans are identified
  by one file name each. The scan of the instance is the brightness temperature grid of its bands,
  and the hot test of the instance compares the first grid with 350 K.
\<close>

definition example_time :: datetime where
  "example_time =
     \<lparr>year = 2019, month = 10, day = 27, hour = 20, minute = 48, second = 27,
      microsecond = 500000\<rparr>"


definition example_goes_level_1 :: "grid goes_level_1" where
  "example_goes_level_1 =
     \<lparr>group_filepaths_into_scans = map (\<lambda>f. [f]),
      read_netcdfs = (\<lambda>fs.
        if fs = [''hot''] then Inr [[Fin 400, Fin 290]]
        else if fs = [''cold''] then Inr [[Fin 290, Fin 290]]
        else if fs = [''short''] then Inl ValueError
        else Inl (OtherError ''download failed'')),
      rescale_to_2km = (\<lambda>s. s),
      band_brightness_temperature = (\<lambda>s b. s),
      band_reflectance_factor = (\<lambda>s b. map (map (\<lambda>x. Fin 0)) s),
      scan_time_utc = (\<lambda>s. example_time),
      scan_region = (\<lambda>s. ''M1''),
      scan_satellite = (\<lambda>s. ''noaa-goes17'')\<rparr>"

definition example_threshold_model :: threshold_model where
  "example_threshold_model =
     \<lparr>is_hot_pixel = (\<lambda>a b. map (map (\<lambda>x. fgt x (Fin 350))) a),
      is_night_pixel = (\<lambda>a b. map (map (\<lambda>x. False)) a),
      is_water_pixel = (\<lambda>a. map (map (\<lambda>x. False)) a),
      is_cloud_pixel = (\<lambda>a b c. map (map (\<lambda>x. False)) a)\<rparr>"

section \<open>Properties of the radiometric step\<close>

lemma fmul_commute: "fmul a b = fmul b a"
  by (cases a; cases b) (simp_all add: mult.commute)



text \<open>The array expressions of the two conversions, read element by element.\<close>

lemma calculate_brightness_temperature_map:
  "calculate_brightness_temperature ds =
     ds\<lparr>brightness_temperature := Some
       (map (map (brightness_temperature_formula
                    (planck_fk1 ds) (planck_fk2 ds) (planck_bc1 ds) (planck_bc2 ds)))
            (Rad ds))\<rparr>"
  by (simp add: calculate_brightness_temperature_def brightness_temperature_formula_def
      grid_div_scalar_def grid_sub_scalar_def scalar_div_grid_def np_log_def
      grid_add_scalar_def comp_def)



text \<open>
  On a positive radiance with a positive \<open>planck_fk1\<close> and a non-zero \<open>planck_bc2\<close> no
  special value arises, and the formula is the one over the real numbers.
\<close>

lemma brightness_temperature_formula_valid:
  assumes "0 < fk1" "0 < r" "bc2 \<noteq> 0"
  shows "brightness_temperature_formula (Fin fk1) (Fin fk2) (Fin bc1) (Fin bc2) (Fin r) =
           Fin ((fk2 / ln (fk1 / r + 1) - bc1) / bc2)"
proof -
  from assms have "0 < fk1 / r" by simp
  then have "0 < ln (fk1 / r + 1)" by (simp add: ln_gt_zero)
  with assms show ?thesis
    by (simp add: brightness_temperature_formula_def fsub_def add_pos_pos)
qed




text \<open>
  C10. Calling \<open>_to_2km_resolution\<close> or \<open>_filter_bad_pixels\<close> on any \<open>GoesScan\<close> raises
  \<open>NotImplementedError\<close>: neither returns silently.
\<close>

theorem stubs_raise_NotImplementedError:
  "to_2km_resolution self = Inl NotImplementedError \<and>
   filter_bad_pixels self = Inl NotImplementedError"
  by (simp add: to_2km_resolution_def filter_bad_pixels_def)

text \<open>
  C4. For every radiance array and calibration constants, the brightness temperature
  that \<open>_calculate_brightness_temperature\<close> assigns is the array obtained by applying
  \<open>(planck_fk2 / ln((planck_fk1 / raw_radiance) + 1) - planck_bc1) / planck_bc2\<close> to
  every element, and nothing else of the dataset changes.
\<close>

theorem brightness_temperature_elementwise:
  "calculate_brightness_temperature ds =
     ds\<lparr>brightness_temperature := Some
       (map (map (brightness_temperature_formula
                    (planck_fk1 ds) (planck_fk2 ds) (planck_bc1 ds) (planck_bc2 ds)))
            (Rad ds))\<rparr>"
  by (rule calculate_brightness_temperature_map)




text \<open>
  \<open>plot\<close> is the one place that chooses by channel, and \<open>range(1, 6)\<close> ends at channel
  5: the band of channel 6 is shown as a brightness temperature.
\<close>

lemma plot_by_channel:
  "channel self \<in> {1, 2, 3, 4, 5} \<Longrightarrow>
     plot self = (''Reflectance Factor Band '', reflectance_factor (scan_dataset self))"
  "channel self \<in> {6, 7, 8, 9, 10, 11, 12, 13, 14, 15, 16} \<Longrightarrow>
     plot self = (''Brightness Temperature Band '', brightness_temperature (scan_dataset self))"
  by (auto simp: plot_def)

section \<open>Properties of the search\<close>

lemma filter_id_empty_iff: "filter id xs = [] \<longleftrightarrow> True \<notin> set xs"
  by (induction xs) auto

lemma mean_list_positive_iff:
  "fgt (if xs = [] then NaN else Fin (real (length (filter id xs)) / real (length xs))) (Fin 0)
   \<longleftrightarrow> True \<in> set xs"
proof (cases "xs = []")
  case True
  then show ?thesis by simp
next
  case False
  then have "0 < length xs" by simp
  moreover have "0 < length (filter id xs) \<longleftrightarrow> True \<in> set xs"
    using filter_id_empty_iff [of xs] by auto
  ultimately show ?thesis
    using False by (simp add: zero_less_divide_iff)
qed

lemma mean_positive_iff: "fgt (mean g) (Fin 0) \<longleftrightarrow> True \<in> set (concat g)"
  unfolding mean_def Let_def by (rule mean_list_positive_iff)

lemma map_function_Inr_iff:
  "map_function f xs = Inr ys \<longleftrightarrow> map f xs = map Inr ys"
proof (induction xs arbitrary: ys)
  case Nil
  then show ?case by auto
next
  case (Cons x xs)
  show ?case
  proof (cases "f x")
    case (Inl e)
    then show ?thesis by auto
  next
    case fx: (Inr y)
    show ?thesis
    proof (cases "map_function f xs")
      case (Inl e)
      with Cons.IH have "\<And>zs. map f xs \<noteq> map Inr zs" by simp
      with fx Inl show ?thesis by auto
    next
      case (Inr zs)
      with Cons.IH [of zs] have "map f xs = map Inr zs" by simp
      with fx Inr show ?thesis by (cases ys) auto
    qed
  qed
qed

lemma map_function_Inl:
  "map_function f xs = Inl e \<Longrightarrow> \<exists>x \<in> set xs. f x = Inl e"
  by (induction xs) (auto split: sum.splits)



subsection \<open>The instance, evaluated\<close>

lemma example_scan_fields:
  "scan_time_utc example_goes_level_1 s = example_time"
  "scan_region example_goes_level_1 s = ''M1''"
  "scan_satellite example_goes_level_1 s = ''noaa-goes17''"
  by (simp_all add: example_goes_level_1_def)

lemma example_read_netcdfs:
  "read_netcdfs example_goes_level_1 [''hot''] = Inr [[Fin 400, Fin 290]]"
  "read_netcdfs example_goes_level_1 [''cold''] = Inr [[Fin 290, Fin 290]]"
  "read_netcdfs example_goes_level_1 [''short''] = Inl ValueError"
  "read_netcdfs example_goes_level_1 [''missing''] = Inl (OtherError ''download failed'')"
  by (simp_all add: example_goes_level_1_def)

lemma example_predict_wildfires:
  "predict_wildfires example_goes_level_1 example_threshold_model [[Fin 400, Fin 290]] =
     [[True, False]]"
  "predict_wildfires example_goes_level_1 example_threshold_model [[Fin 290, Fin 290]] =
     [[False, False]]"
  by (simp_all add: predict_wildfires_def get_model_features_def example_goes_level_1_def
      example_threshold_model_def predict_def grid_and_def grid_not_def Let_def)

lemma example_strftime:
  "strftime_scan_time example_time = ''2019-10-27T20:48:27500000''"
  "strftime_DATETIME_FORMAT example_time = ''2019-10-27T20:48:27''"
  by (simp_all add: strftime_scan_time_def strftime_DATETIME_FORMAT_def zero_pad_def
      example_time_def dec.simps digit_char_def)

lemma example_parse_scan_for_wildfire:
  "parse_scan_for_wildfire example_goes_level_1 example_threshold_model [''hot''] =
     Inr (Some [(''scan_time_utc'', ''2019-10-27T20:48:27500000''),
                (''region'', ''M1''), (''satellite'', ''noaa-goes17'')])"
  "parse_scan_for_wildfire example_goes_level_1 example_threshold_model [''cold''] = Inr None"
  "parse_scan_for_wildfire example_goes_level_1 example_threshold_model [''short''] = Inr None"
  "parse_scan_for_wildfire example_goes_level_1 example_threshold_model [''missing''] =
     Inl (OtherError ''download failed'')"
  by (simp_all add: parse_scan_for_wildfire_def example_read_netcdfs example_predict_wildfires
      example_scan_fields example_strftime mean_def)



subsection \<open>One scan group\<close>






text \<open>
  C1. For a scan group that was read successfully, the mean of the prediction grid is
  greater than zero exactly when some pixel is positive; then \<open>parse_scan_for_wildfire\<close>
  returns the record with the keys \<open>scan_time_utc\<close> (the scan time formatted with
  \<open>%Y-%m-%dT%H:%M:%S%f\<close>), \<open>region\<close> and \<open>satellite\<close>, in this order and no other key;
  with no positive pixel it returns \<open>None\<close>.
\<close>

theorem parse_scan_for_wildfire_record:
  assumes "read_netcdfs gl filepaths = Inr goes_scan"
  shows "(fgt (mean (predict_wildfires gl tm goes_scan)) (Fin 0) \<longleftrightarrow>
            True \<in> set (concat (predict_wildfires gl tm goes_scan))) \<and>
         (True \<in> set (concat (predict_wildfires gl tm goes_scan)) \<longrightarrow>
            parse_scan_for_wildfire gl tm filepaths =
              Inr (Some [(''scan_time_utc'', strftime_scan_time (scan_time_utc gl goes_scan)),
                         (''region'', scan_region gl goes_scan),
                         (''satellite'', scan_satellite gl goes_scan)])) \<and>
         (True \<notin> set (concat (predict_wildfires gl tm goes_scan)) \<longrightarrow>
            parse_scan_for_wildfire gl tm filepaths = Inr None)"
  using assms by (simp add: parse_scan_for_wildfire_def mean_positive_iff del: set_concat)

theorem parse_scan_for_wildfire_record_witness:
  "read_netcdfs example_goes_level_1 [''hot''] = Inr [[Fin 400, Fin 290]] \<and>
   parse_scan_for_wildfire example_goes_level_1 example_threshold_model [''hot''] =
     Inr (Some [(''scan_time_utc'', ''2019-10-27T20:48:27500000''),
                (''region'', ''M1''), (''satellite'', ''noaa-goes17'')])"
  using parse_scan_for_wildfire_record [OF example_read_netcdfs(1), of example_threshold_model]
  by (simp add: example_predict_wildfires example_strftime example_scan_fields
      example_read_netcdfs)

subsection \<open>A batch of scan groups\<close>




section \<open>Properties of the decision rule\<close>

lemma grid_and_nth:
  "i < length a \<Longrightarrow> i < length b \<Longrightarrow> j < length (a ! i) \<Longrightarrow> j < length (b ! i) \<Longrightarrow>
   grid_and a b ! i ! j = (a ! i ! j \<and> b ! i ! j)"
  by (simp add: grid_and_def)

lemma grid_and_length:
  "length (grid_and a b) = min (length a) (length b)"
  "i < length a \<Longrightarrow> i < length b \<Longrightarrow>
   length (grid_and a b ! i) = min (length (a ! i)) (length (b ! i))"
  by (simp_all add: grid_and_def)

lemma grid_not_nth:
  "i < length a \<Longrightarrow> j < length (a ! i) \<Longrightarrow> grid_not a ! i ! j = (\<not> a ! i ! j)"
  by (simp add: grid_not_def)

lemma grid_not_length:
  "length (grid_not a) = length a"
  "i < length a \<Longrightarrow> length (grid_not a ! i) = length (a ! i)"
  by (simp_all add: grid_not_def)

lemma predict_nth:
  assumes "i < length hot" "i < length cloud" "i < length water"
    and "j < length (hot ! i)" "j < length (cloud ! i)" "j < length (water ! i)"
  shows "predict hot cloud night water ! i ! j =
           predict_pixel (hot ! i ! j) (cloud ! i ! j) n (water ! i ! j)"
  using assms
  by (simp add: predict_def predict_pixel_def grid_and_nth grid_and_length grid_not_nth
      grid_not_length)


text \<open>
  C6. With the decision rule of the specification, the prediction at a pixel is
  \<open>is_hot\<close> and not \<open>is_cloud\<close> and not \<open>is_water\<close>, whatever \<open>is_night\<close> is. So a
  pixel with \<open>is_cloud\<close> or \<open>is_water\<close> is never predicted positive, and for a hot pixel
  turning \<open>is_cloud\<close> or \<open>is_water\<close> from false to true never turns the prediction from
  false to true.
\<close>

theorem disqualifiers_monotonic:
  assumes "i < length hot" "i < length cloud" "i < length water"
    and "j < length (hot ! i)" "j < length (cloud ! i)" "j < length (water ! i)"
  shows "predict hot cloud night water ! i ! j =
           (hot ! i ! j \<and> \<not> cloud ! i ! j \<and> \<not> water ! i ! j) \<and>
         (cloud ! i ! j \<or> water ! i ! j \<longrightarrow> \<not> predict hot cloud night water ! i ! j) \<and>
         (\<forall>c c' w w' n. (c \<longrightarrow> c') \<and> (w \<longrightarrow> w') \<and> predict_pixel True c' n w' \<longrightarrow>
            predict_pixel True c n w) \<and>
         (\<forall>h c w n. c \<or> w \<longrightarrow> \<not> predict_pixel h c n w)"
proof -
  have "predict hot cloud night water ! i ! j =
          (hot ! i ! j \<and> \<not> cloud ! i ! j \<and> \<not> water ! i ! j)"
    using predict_nth [OF assms] by (simp add: predict_pixel_def)
  then show ?thesis by (auto simp: predict_pixel_def)
qed

theorem disqualifiers_monotonic_witness:
  "predict [[True, True]] [[False, True]] [[False, False]] [[False, False]] ! 0 ! 1 = False \<and>
   predict [[True, True]] [[False, True]] [[False, False]] [[False, False]] ! 0 ! 0 = True"
proof -
  have a: "predict [[True, True]] [[False, True]] [[False, False]] [[False, False]] ! 0 ! 1 =
        ([[True, True]] ! 0 ! 1 \<and> \<not> [[False, True]] ! 0 ! 1 \<and> \<not> [[False, False]] ! 0 ! 1)"
    using disqualifiers_monotonic [of 0 "[[True, True]]" "[[False, True]]" "[[False, False]]" 1
        "[[False, False]]"] by simp
  have b: "predict [[True, True]] [[False, True]] [[False, False]] [[False, False]] ! 0 ! 0 =
        ([[True, True]] ! 0 ! 0 \<and> \<not> [[False, True]] ! 0 ! 0 \<and> \<not> [[False, False]] ! 0 ! 0)"
    by (rule predict_nth [of 0 _ _ _ 0, unfolded predict_pixel_def]) simp_all
  from a b show ?thesis by simp
qed


section \<open>Properties of the result file\<close>

lemma enumerate_dict_map:
  "map (\<lambda>(i, w). (dec i, json_of_wildfire w)) (enumerate_dict ws) =
   map (\<lambda>i. (dec i, json_of_wildfire (ws ! i))) [0..<length ws]"
  by (rule nth_equalityI) (simp_all add: enumerate_dict_def)


lemma example_label_wildfires:
  "label_wildfires example_goes_level_1 example_threshold_model
     [[''hot''], [''short''], [''cold'']] ''out'' ''noaa-goes17'' ''M1''
     example_time example_time example_time =
   Inr ([[(''scan_time_utc'', ''2019-10-27T20:48:27500000''),
          (''region'', ''M1''), (''satellite'', ''noaa-goes17'')]],
        [(''out/wildfires_noaa-goes17_M1_s2019-10-27T20:48:27_e2019-10-27T20:48:27_c2019-10-27T20:48:27.json'',
          JObject [(''0'', JObject [(''scan_time_utc'', JString ''2019-10-27T20:48:27500000''),
                                    (''region'', JString ''M1''),
                                    (''satellite'', JString ''noaa-goes17'')])])])"
  by (simp add: label_wildfires_def example_parse_scan_for_wildfire example_strftime
      WILDFIRE_FILENAME_def os_path_join_def json_dump_def enumerate_dict_def
      json_of_wildfire_def dec.simps digit_char_def)


text \<open>
  C8. When \<open>label_wildfires\<close> returns, it has written a file exactly when the list of
  wildfires is not empty. The file is then the only one written; it lies in the
  persist directory, its name is
  \<open>wildfires_{satellite}_{region}_s{start}_e{end}_c{created}.json\<close> with the three times
  formatted by \<open>%Y-%m-%dT%H:%M:%S\<close>, and its content maps the indices
  \<open>0, 1, \<dots>\<close> to the wildfires in their order. With no wildfire nothing is written.
\<close>

theorem label_wildfires_file:
  assumes "label_wildfires gl tm gs dir sat reg start end now = Inr (ws, files)"
  shows "(files \<noteq> [] \<longleftrightarrow> ws \<noteq> []) \<and>
         (ws \<noteq> [] \<longrightarrow>
            files =
              [(os_path_join dir
                  (''wildfires_'' @ sat @ ''_'' @ reg @
                   ''_s'' @ strftime_DATETIME_FORMAT start @
                   ''_e'' @ strftime_DATETIME_FORMAT end @
                   ''_c'' @ strftime_DATETIME_FORMAT now @ ''.json''),
                JObject (map (\<lambda>i. (dec i, json_of_wildfire (ws ! i))) [0..<length ws]))]) \<and>
         (ws = [] \<longrightarrow> files = []) \<and>
         (\<exists>rs. map_function (parse_scan_for_wildfire gl tm) gs = Inr rs \<and> ws = filter_None rs)"
  using assms
  by (auto simp: label_wildfires_def Let_def WILDFIRE_FILENAME_def json_dump_def
      enumerate_dict_map split: sum.splits if_splits)


theorem label_wildfires_file_witness:
  "label_wildfires example_goes_level_1 example_threshold_model
     [[''hot''], [''short''], [''cold'']] ''out'' ''noaa-goes17'' ''M1''
     example_time example_time example_time =
   Inr ([[(''scan_time_utc'', ''2019-10-27T20:48:27500000''),
          (''region'', ''M1''), (''satellite'', ''noaa-goes17'')]],
        [(''out/wildfires_noaa-goes17_M1_s2019-10-27T20:48:27_e2019-10-27T20:48:27_c2019-10-27T20:48:27.json'',
          JObject [(''0'', JObject [(''scan_time_utc'', JString ''2019-10-27T20:48:27500000''),
                                    (''region'', JString ''M1''),
                                    (''satellite'', JString ''noaa-goes17'')])])])"
  using label_wildfires_file [OF example_label_wildfires] example_label_wildfires by simp

section \<open>Invalid radiances\<close>






text \<open>
  Over the real numbers the conversion to brightness temperature can be undone: for a
  positive radiance, a positive \<open>planck_fk1\<close> and non-zero \<open>planck_fk2\<close> and \<open>planck_bc2\<close>,
  Planck's function of the brightness temperature is the radiance again. The rounding
  of float64 is outside this model.
\<close>

lemma brightness_temperature_round_trip_exact:
  assumes "0 < fk1" "0 < r" "fk2 \<noteq> 0" "bc2 \<noteq> 0"
  shows "\<exists>T. brightness_temperature_formula (Fin fk1) (Fin fk2) (Fin bc1) (Fin bc2) (Fin r) = Fin T \<and>
             fk1 / (exp (fk2 / (bc1 + bc2 * T)) - 1) = r"
proof -
  let ?L = "ln (fk1 / r + 1)"
  let ?T = "(fk2 / ?L - bc1) / bc2"
  from assms have pos: "0 < fk1 / r" by simp
  then have L: "0 < ?L" by (simp add: ln_gt_zero)
  have "bc1 + bc2 * ?T = fk2 / ?L" using assms by simp
  then have "fk2 / (bc1 + bc2 * ?T) = ?L" using assms L by simp
  then have "exp (fk2 / (bc1 + bc2 * ?T)) - 1 = fk1 / r"
    using pos by (simp add: add_pos_pos)
  then have "fk1 / (exp (fk2 / (bc1 + bc2 * ?T)) - 1) = r" using assms by simp
  moreover have "brightness_temperature_formula (Fin fk1) (Fin fk2) (Fin bc1) (Fin bc2) (Fin r) =
                   Fin ?T"
    using assms by (simp add: brightness_temperature_formula_valid)
  ultimately show ?thesis by blast
qed

end
